theory Spec2Isabelle
  imports Main "HOL-Library.Word"
begin

section \<open>JavaScript values and objects, as far as the utilities use them\<close>

text \<open>
  The utilities of \<^verbatim>\<open>app/lib/utils.ts\<close> index plain object literals with a string key.
  A property read on an object literal looks at the object's own properties first and then
  at \<^verbatim>\<open>Object.prototype\<close>, which every object literal inherits from. The result of such
  a read is therefore \<^verbatim>\<open>undefined\<close>, a string (the literals here hold strings only) or a
  member inherited from \<^verbatim>\<open>Object.prototype\<close>.
\<close>

datatype js_error = JsError string

datatype js_value =
    Undefined
  | Str string
  | ProtoMember string

type_synonym js_object = "(string \<times> string) list"

text \<open>The property names of \<^verbatim>\<open>Object.prototype\<close> (ECMAScript, with the legacy accessors of Annex B).\<close>

definition object_prototype_keys :: "string list" where
  "object_prototype_keys =
    [''constructor'', ''hasOwnProperty'', ''isPrototypeOf'', ''propertyIsEnumerable'',
     ''toLocaleString'', ''toString'', ''valueOf'', ''__proto__'',
     ''__defineGetter__'', ''__defineSetter__'', ''__lookupGetter__'', ''__lookupSetter__'']"

text \<open>\<^verbatim>\<open>obj[key]\<close>: own property, else inherited member, else \<^verbatim>\<open>undefined\<close>.\<close>

definition js_get :: "js_object \<Rightarrow> string \<Rightarrow> js_value" where
  "js_get obj key =
    (case map_of obj key of
       Some v \<Rightarrow> Str v
     | None \<Rightarrow> if key \<in> set object_prototype_keys then ProtoMember key else Undefined)"

text \<open>
  \<^verbatim>\<open>base?.[key]\<close>: \<^verbatim>\<open>undefined\<close> when the base is null or undefined, the property read
  otherwise. The result is a sum so that a \<^verbatim>\<open>try\<close> around the read has its \<^verbatim>\<open>catch\<close>
  branch in the model; the read itself has no throwing case.
\<close>

definition optional_index :: "js_object option \<Rightarrow> string \<Rightarrow> js_error + js_value" where
  "optional_index base key =
    (case base of None \<Rightarrow> Inr Undefined | Some obj \<Rightarrow> Inr (js_get obj key))"

text \<open>Truthiness of a value in a condition.\<close>

fun truthy :: "js_value \<Rightarrow> bool" where
  "truthy Undefined = False"
| "truthy (Str s) = (s \<noteq> [])"
| "truthy (ProtoMember k) = True"

text \<open>
  String conversion inside a template literal. An inherited function prints as the engine
  prints a built-in (V8's form is used); \<^verbatim>\<open>__proto__\<close> is the prototype object itself.
\<close>

fun template_string :: "js_value \<Rightarrow> string" where
  "template_string Undefined = ''undefined''"
| "template_string (Str s) = s"
| "template_string (ProtoMember k) =
     (if k = ''__proto__'' then ''[object Object]''
      else ''function '' @ (if k = ''constructor'' then ''Object'' else k) @ ''() { [native code] }'')"

text \<open>\<^verbatim>\<open>s.split(sep)\<close> for a one-character separator: the empty string gives one empty part.\<close>

fun split_on :: "char \<Rightarrow> string \<Rightarrow> string list" where
  "split_on sep [] = [[]]"
| "split_on sep (c # cs) =
     (if c = sep then [] # split_on sep cs
      else (case split_on sep cs of
              [] \<Rightarrow> [[c]]
            | w # ws \<Rightarrow> (c # w) # ws))"

text \<open>\<^verbatim>\<open>xs.pop()\<close>: the last element (\<^verbatim>\<open>undefined\<close> on an empty array) and the array left.\<close>

definition pop :: "'a list \<Rightarrow> 'a option \<times> 'a list" where
  "pop xs = (if xs = [] then (None, []) else (Some (last xs), butlast xs))"

section \<open>\<^verbatim>\<open>statusMessage\<close> (app/lib/utils.ts)\<close>

definition translations_tbl :: js_object where
  "translations_tbl =
    [(''ATTEMPTED_DELIVERY'', ''Attempted delivery''),
     (''CANCELED'', ''Canceled''),
     (''CONFIRMED'', ''Confirmed''),
     (''DELIVERED'', ''Delivered''),
     (''FAILURE'', ''Failure''),
     (''FULFILLED'', ''Fulfilled''),
     (''IN_PROGRESS'', ''In Progress''),
     (''IN_TRANSIT'', ''In transit''),
     (''LABEL_PRINTED'', ''Label printed''),
     (''LABEL_PURCHASED'', ''Label purchased''),
     (''LABEL_VOIDED'', ''Label voided''),
     (''MARKED_AS_FULFILLED'', ''Marked as fulfilled''),
     (''NOT_DELIVERED'', ''Not delivered''),
     (''ON_HOLD'', ''On Hold''),
     (''OPEN'', ''Open''),
     (''OUT_FOR_DELIVERY'', ''Out for delivery''),
     (''PARTIALLY_FULFILLED'', ''Partially Fulfilled''),
     (''PENDING_FULFILLMENT'', ''Pending''),
     (''PICKED_UP'', ''Displayed as Picked up''),
     (''READY_FOR_PICKUP'', ''Ready for pickup''),
     (''RESTOCKED'', ''Restocked''),
     (''SCHEDULED'', ''Scheduled''),
     (''SUBMITTED'', ''Submitted''),
     (''UNFULFILLED'', ''Unfulfilled'')]"

definition statusMessage :: "string \<Rightarrow> js_value" where
  "statusMessage status =
    (case optional_index (Some translations_tbl) status of
       Inr v \<Rightarrow> v
     | Inl error \<Rightarrow> Str status)"

section \<open>\<^verbatim>\<open>resolveToFromType\<close> (app/lib/utils.ts)\<close>

record resolve_args =
  customPrefixes :: js_object
  pathname :: "string option"
  type :: "string option"

definition defaultPrefixes :: js_object where
  "defaultPrefixes =
    [(''BLOG'', ''blogs''),
     (''COLLECTION'', ''collections''),
     (''COLLECTIONS'', ''collections''),
     (''FRONTPAGE'', ''frontpage''),
     (''HTTP'', ''''),
     (''PAGE'', ''pages''),
     (''CATALOG'', ''collections/all''),
     (''PRODUCT'', ''products''),
     (''SEARCH'', ''search''),
     (''SHOP_POLICY'', ''policies'')]"

text \<open>
  \<^verbatim>\<open>{...defaultPrefixes, ...customPrefixes}\<close>: a property of the second object overrides the
  first's. \<^const>\<open>map_of\<close> reads the first entry of a key, so the overriding entries come first.
\<close>

definition spread :: "js_object \<Rightarrow> js_object \<Rightarrow> js_object" where
  "spread a b = b @ a"

definition resolveToFromType :: "resolve_args \<Rightarrow> string" where
  "resolveToFromType args =
    (case (pathname args, type args) of
       (Some pathname', Some type') \<Rightarrow>
         if pathname' = [] \<or> type' = [] then []
         else
           let pathParts = split_on CHR ''/'' pathname';
               (popped, pathParts) = pop pathParts;
               handle = (case popped of Some h \<Rightarrow> (if h = [] then [] else h) | None \<Rightarrow> []);
               routePrefix = spread defaultPrefixes (customPrefixes args)
           in
             if type' = ''FRONTPAGE'' then ''/''
             else if type' = ''ARTICLE'' then
               (let blogHandle = (case fst (pop pathParts) of Some b \<Rightarrow> Str b | None \<Rightarrow> Undefined)
                in if truthy (js_get routePrefix ''BLOG'')
                   then ''/'' @ template_string (js_get routePrefix ''BLOG'') @ ''/''
                        @ template_string blogHandle @ ''/'' @ handle @ ''/''
                   else ''/'' @ template_string blogHandle @ ''/'' @ handle @ ''/'')
             else if type' = ''COLLECTIONS'' then ''/'' @ template_string (js_get routePrefix ''COLLECTIONS'')
             else if type' = ''SEARCH'' then ''/'' @ template_string (js_get routePrefix ''SEARCH'')
             else if type' = ''CATALOG'' then ''/'' @ template_string (js_get routePrefix ''CATALOG'')
             else if truthy (js_get routePrefix type')
               then ''/'' @ template_string (js_get routePrefix type') @ ''/'' @ handle
               else ''/'' @ handle
     | _ \<Rightarrow> [])"

section \<open>\<^verbatim>\<open>formatText\<close> (app/lib/utils.ts)\<close>

text \<open>
  A JavaScript string is a sequence of 16-bit code units. The regular expression of
  \<^verbatim>\<open>formatText\<close> tells white space (\<^verbatim>\<open>\s\<close>: the ECMAScript WhiteSpace and
  LineTerminator code points) from the rest, and singles out \<^verbatim>\<open><\<close>.
\<close>

type_synonym utf16 = "16 word list"

definition is_whitespace :: "16 word \<Rightarrow> bool" where
  "is_whitespace c \<longleftrightarrow>
     c \<in> {0x0009, 0x000A, 0x000B, 0x000C, 0x000D, 0x0020, 0x00A0, 0x1680,
          0x2028, 0x2029, 0x202F, 0x205F, 0x3000, 0xFEFF}
     \<or> (0x2000 \<le> c \<and> c \<le> 0x200A)"

definition nbsp :: "16 word" where
  "nbsp = 0x00A0"

text \<open>The class \<^verbatim>\<open>[^\s<]\<close>.\<close>

definition word_unit :: "16 word \<Rightarrow> bool" where
  "word_unit c \<longleftrightarrow> \<not> is_whitespace c \<and> c \<noteq> 0x003C"

text \<open>
  \<^verbatim>\<open>/\s([^\s<]+)\s*$/\<close> matched at the head of \<open>c # r\<close>: \<open>c\<close> is white space, the longest
  run of \<^verbatim>\<open>[^\s<]\<close> after it is not empty, and only white space follows up to the end of
  the string. The two classes are disjoint, so no shorter run can match.
\<close>

definition final_word_match :: "16 word \<Rightarrow> utf16 \<Rightarrow> bool" where
  "final_word_match c r \<longleftrightarrow>
     is_whitespace c \<and> takeWhile word_unit r \<noteq> [] \<and> list_all is_whitespace (dropWhile word_unit r)"

text \<open>
  \<^verbatim>\<open>.replace(/\s([^\s<]+)\s*$/g, "\u00A0$1")\<close>: the string is searched from the left; a match
  runs to the end of the string, so there is at most one, and it is replaced by U+00A0 and
  the first group.
\<close>

fun replace_final_word :: "utf16 \<Rightarrow> utf16" where
  "replace_final_word [] = []"
| "replace_final_word (c # r) =
     (if final_word_match c r then nbsp # takeWhile word_unit r
      else c # replace_final_word r)"

text \<open>
  The argument of \<^verbatim>\<open>formatText\<close> is a string or a React node. Numbers are modelled up
  to what the function looks at: whether they are zero or \<^verbatim>\<open>NaN\<close>.
\<close>

datatype js_number = NaN | Num int

datatype react_node =
    NUndefined
  | NNull
  | NBool bool
  | NNumber js_number
  | NString utf16
  | NObject nat

fun falsy :: "react_node \<Rightarrow> bool" where
  "falsy NUndefined = True"
| "falsy NNull = True"
| "falsy (NBool b) = (\<not> b)"
| "falsy (NNumber n) = (n = NaN \<or> n = Num 0)"
| "falsy (NString s) = (s = [])"
| "falsy (NObject a) = False"

text \<open>
  \<^verbatim>\<open>typographicBase\<close> is the function of the package \<^verbatim>\<open>typographic-base\<close>, applied with the
  locale \<^verbatim>\<open>en-us\<close>; it is a parameter of the model.
\<close>

definition formatText :: "(utf16 \<Rightarrow> utf16) \<Rightarrow> react_node \<Rightarrow> react_node" where
  "formatText typographicBase input =
    (if falsy input then NUndefined
     else case input of
            NString s \<Rightarrow> NString (replace_final_word (typographicBase s))
          | _ \<Rightarrow> input)"

text \<open>
  The sentence of the specification, read by itself: the processed string, with the white
  space before its final word replaced by a non-breaking space. The final word is the last
  run of code units that are not white space; the unit before it is the white space in
  question; everything else stays.
\<close>

definition nbsp_before_final_word :: "utf16 \<Rightarrow> utf16" where
  "nbsp_before_final_word s =
    (let r = rev s;
         trailing = takeWhile is_whitespace r;
         w = takeWhile (\<lambda>c. \<not> is_whitespace c) (dropWhile is_whitespace r);
         before = dropWhile (\<lambda>c. \<not> is_whitespace c) (dropWhile is_whitespace r)
     in case before of
          [] \<Rightarrow> s
        | c # pre \<Rightarrow> rev pre @ [nbsp] @ rev w @ rev trailing)"

section \<open>\<^verbatim>\<open>storefrontRedirect\<close> (packages/hydrogen/src/routing/redirect.ts)\<close>

record response =
  body :: "string option"
  status :: nat
  headers :: "(string \<times> string) list"

datatype UrlRedirect = UrlRedirect (target: "string option")

datatype UrlRedirectEdge = UrlRedirectEdge (node: "UrlRedirect option")

datatype UrlRedirectConnection = UrlRedirectConnection (edges: "UrlRedirectEdge list option")

record query_data =
  urlRedirects :: "UrlRedirectConnection option"

text \<open>
  The Storefront client: \<^verbatim>\<open>query\<close> takes the query text and its variables and resolves to
  the data or throws; \<^verbatim>\<open>getShopifyDomain\<close> is a call that can throw as well.
\<close>

record storefront =
  query :: "string \<Rightarrow> (string \<times> string) list \<Rightarrow> js_error + query_data option"
  getShopifyDomain :: "js_error + string"

record request =
  url :: string

record StorefrontRedirect =
  storefront :: storefront
  request :: request
  response :: "response option"
  noAdminRedirect :: "bool option"

text \<open>
  What the module imports and the platform provides: \<^verbatim>\<open>new URL(u)\<close>, as the pair of
  \<^verbatim>\<open>pathname\<close> and \<^verbatim>\<open>search\<close> of the parsed address; \<^verbatim>\<open>redirect\<close> of the server runtime;
  \<^verbatim>\<open>getRedirectUrl\<close> of \<^verbatim>\<open>../utils/get-redirect-url\<close>.
\<close>

record redirect_deps =
  new_URL :: "string \<Rightarrow> string \<times> string"
  redirect :: "string \<Rightarrow> response"
  getRedirectUrl :: "string \<Rightarrow> js_error + string option"

definition REDIRECT_QUERY :: string where
  "REDIRECT_QUERY =
     ''#graphql'' @ [CHR 0x0A] @
     ''  query redirects($query: String) {'' @ [CHR 0x0A] @
     ''    urlRedirects(first: 1, query: $query) {'' @ [CHR 0x0A] @
     ''      edges {'' @ [CHR 0x0A] @
     ''        node {'' @ [CHR 0x0A] @
     ''          target'' @ [CHR 0x0A] @
     ''        }'' @ [CHR 0x0A] @
     ''      }'' @ [CHR 0x0A] @
     ''    }'' @ [CHR 0x0A] @
     ''  }'' @ [CHR 0x0A]"

text \<open>\<^verbatim>\<open>urlRedirects?.edges?.[0]?.node?.target\<close>\<close>

definition first_target :: "UrlRedirectConnection option \<Rightarrow> string option" where
  "first_target conn =
    (case conn of
       None \<Rightarrow> None
     | Some c \<Rightarrow>
        (case edges c of
           None \<Rightarrow> None
         | Some es \<Rightarrow>
            (case es of
               [] \<Rightarrow> None
             | e # _ \<Rightarrow> (case node e of None \<Rightarrow> None | Some n \<Rightarrow> target n))))"

text \<open>A string in a condition: \<^verbatim>\<open>undefined\<close> and the empty string are falsy.\<close>

definition nonempty :: "string option \<Rightarrow> string option" where
  "nonempty v = (case v of Some x \<Rightarrow> (if x = [] then None else Some x) | None \<Rightarrow> None)"

definition not_found :: response where
  "not_found = \<lparr>body = Some ''Not Found'', status = 404, headers = []\<rparr>"

text \<open>
  The body of the \<^verbatim>\<open>try\<close> block: \<open>Inl\<close> is an exception thrown in it, \<open>Inr (Some r)\<close> a
  response returned from it, \<open>Inr None\<close> its normal end. Destructuring a result that is
  null or undefined throws a \<^verbatim>\<open>TypeError\<close>.
\<close>

definition redirect_lookup ::
  "redirect_deps \<Rightarrow> StorefrontRedirect \<Rightarrow> string \<Rightarrow> js_error + response option" where
  "redirect_lookup deps options redirectFrom =
    (case query (storefront options) REDIRECT_QUERY [(''query'', ''path:'' @ redirectFrom)] of
       Inl error \<Rightarrow> Inl error
     | Inr None \<Rightarrow> Inl (JsError ''TypeError'')
     | Inr (Some data) \<Rightarrow>
        (case nonempty (first_target (urlRedirects data)) of
           Some location \<Rightarrow>
             Inr (Some \<lparr>body = None, status = 301, headers = [(''location'', location)]\<rparr>)
         | None \<Rightarrow>
             (case getRedirectUrl deps (url (request options)) of
                Inl error \<Rightarrow> Inl error
              | Inr r \<Rightarrow>
                 (case nonempty r of
                    Some redirectTo \<Rightarrow> Inr (Some (redirect deps redirectTo))
                  | None \<Rightarrow> Inr None))))"

text \<open>
  The function returns what \<^verbatim>\<open>console.error\<close> was given (message and error) and either
  the response or the exception it lets through.
\<close>

definition storefrontRedirect ::
  "redirect_deps \<Rightarrow> StorefrontRedirect \<Rightarrow> (string \<times> js_error) list \<times> (js_error + response)" where
  "storefrontRedirect deps options =
    (let response' = (case response options of Some r \<Rightarrow> r | None \<Rightarrow> not_found);
         (pathname', search') = new_URL deps (url (request options));
         redirectFrom = pathname' @ search'
     in
       if pathname' = ''/admin'' \<and> noAdminRedirect options \<noteq> Some True then
         (case getShopifyDomain (storefront options) of
            Inl error \<Rightarrow> ([], Inl error)
          | Inr domain \<Rightarrow> ([], Inr (redirect deps (domain @ ''/admin''))))
       else
         (case redirect_lookup deps options redirectFrom of
            Inr (Some r) \<Rightarrow> ([], Inr r)
          | Inr None \<Rightarrow> ([], Inr response')
          | Inl error \<Rightarrow>
              ([(''Failed to fetch redirects from Storefront API for route '' @ redirectFrom, error)],
               Inr response')))"

section \<open>The \<^verbatim>\<open>package.json\<close> rewrite of \<^verbatim>\<open>setupLocalStarterTemplate\<close>\<close>

definition name_key :: string where
  \<open>name_key = ''"name": "''\<close>

definition dquote :: char where
  "dquote = CHR 0x22"

text \<open>
  \<^verbatim>\<open>/"name": "[^"]+"/\<close> matched at the head of a string: the matched text and what follows
  it. The class \<^verbatim>\<open>[^"]\<close> takes every unit but the quote, line ends included, and the quote
  must follow its longest run.
\<close>

definition match_name_field :: "string \<Rightarrow> (string \<times> string) option" where
  "match_name_field s =
    (if take (length name_key) s = name_key then
       (let r = drop (length name_key) s;
            v = takeWhile (\<lambda>c. c \<noteq> dquote) r;
            rest = dropWhile (\<lambda>c. c \<noteq> dquote) r
        in if v \<noteq> [] \<and> rest \<noteq> [] then Some (name_key @ v @ [dquote], tl rest) else None)
     else None)"

text \<open>
  The replacement text of \<^verbatim>\<open>String.prototype.replace\<close> (ECMAScript GetSubstitution) for a
  pattern without groups: \<^verbatim>\<open>$$\<close> is a dollar, \<^verbatim>\<open>$&\<close> the match, \<^verbatim>\<open>$`\<close> the text before
  it, \<^verbatim>\<open>$'\<close> the text after it; any other dollar stands for itself.
\<close>

fun get_substitution :: "string \<Rightarrow> string \<Rightarrow> string \<Rightarrow> string \<Rightarrow> string" where
  "get_substitution matched preceding following [] = []"
| "get_substitution matched preceding following [c] = [c]"
| "get_substitution matched preceding following (c # d # r) =
     (if c = CHR ''$'' then
        (if d = CHR ''$'' then CHR ''$'' # get_substitution matched preceding following r
         else if d = CHR ''&'' then matched @ get_substitution matched preceding following r
         else if d = CHR 0x60 then preceding @ get_substitution matched preceding following r
         else if d = CHR 0x27 then following @ get_substitution matched preceding following r
         else c # get_substitution matched preceding following (d # r))
      else c # get_substitution matched preceding following (d # r))"

text \<open>
  \<^verbatim>\<open>content.replace(/"name": "[^"]+"/, replacement)\<close>: the pattern has no \<^verbatim>\<open>g\<close> flag, so the
  first match from the left is replaced and the rest of the string is kept. \<open>preceding\<close> is the
  text already passed.
\<close>

fun replace_from :: "string \<Rightarrow> string \<Rightarrow> string \<Rightarrow> string" where
  "replace_from replacement preceding [] = []"
| "replace_from replacement preceding (c # cs) =
     (case match_name_field (c # cs) of
        Some (matched, following) \<Rightarrow> get_substitution matched preceding following replacement @ following
      | None \<Rightarrow> c # replace_from replacement (preceding @ [c]) cs)"

definition replace_name :: "string \<Rightarrow> string \<Rightarrow> string" where
  "replace_name content replacement = replace_from replacement [] content"

record storefrontInfo =
  title :: "string option"
  session :: string

record project =
  name :: string
  directory :: string
  storefrontTitle :: "string option"

text \<open>
  The callback handed to \<^verbatim>\<open>replaceFileContent\<close> for \<^verbatim>\<open>package.json\<close>. \<^verbatim>\<open>hyphenate\<close> is the
  function of \<^verbatim>\<open>@shopify/cli-kit/common/string\<close>, a parameter of the model.
\<close>

definition package_json_replacer ::
  "(string \<Rightarrow> string) \<Rightarrow> storefrontInfo option \<Rightarrow> project \<Rightarrow> string \<Rightarrow> string" where
  "package_json_replacer hyphenate storefrontInfo project content =
    replace_name content
      (name_key
       @ hyphenate (case storefrontInfo of
                      Some info \<Rightarrow> (case title info of Some t \<Rightarrow> t | None \<Rightarrow> name project)
                    | None \<Rightarrow> name project)
       @ [dquote])"

section \<open>\<^verbatim>\<open>setupLocalStarterTemplate\<close>\<close>

subsection \<open>Data\<close>

datatype templateAction = Mock | Link

datatype language = JS | TS

record InitOptions =
  mockShop :: bool
  language :: "language option"
  styling :: "string option"
  installDeps :: "bool option"
  shortcut :: "bool option"
  i18n :: "string option"
  routes :: "bool option"

text \<open>The fields of \<^verbatim>\<open>SetupSummary\<close> that the function reads or writes.\<close>

record SetupSummary =
  language :: language
  packageManager :: string
  cssStrategy :: "string option"
  depsInstalled :: bool
  depsError :: "js_error option"
  hasCreatedShortcut :: bool
  i18n :: "string option"
  i18nError :: "js_error option"
  routes :: "string list option"
  routesError :: "js_error option"

text \<open>The side-effecting calls the function makes in the background or at its end.\<close>

datatype step =
    CreateStorefront
  | WaitForJob
  | CopyTemplate
  | GenerateProjectEntries
  | ReplacePackageJson
  | SetUserAccount
  | SetStorefront
  | WriteEmptyEnv
  | WriteMockEnv
  | TranspileProject
  | CreateInitialCommit
  | SetupCss
  | CommitCss
  | InstallDeps
  | CreateShortcut
  | SetupI18n
  | CommitI18n
  | SetupRoutes
  | CommitRoutes
  | CommitLockfile

text \<open>
  The world outside the function: what each prompt or handler of \<^verbatim>\<open>./common.js\<close> resolves
  to, given the arguments the function passes, and how each side-effecting call ends
  (\<open>None\<close>: it succeeds; \<open>Some e\<close>: it throws or rejects with \<open>e\<close>). A prompt is modelled by
  its answer.
\<close>

record env =
  renderSelectPrompt :: templateAction
  handleStorefrontLink :: storefrontInfo
  handleProjectLocation :: "storefrontInfo option \<Rightarrow> project option"
  createStorefront_jobId :: "string option"
  handleLanguage :: "string \<Rightarrow> language option \<Rightarrow> language"
  handleCssStrategy :: "string \<Rightarrow> string option \<Rightarrow> string option"
  handleDependencies :: "string \<Rightarrow> bool option \<Rightarrow> string \<times> bool"
  getCliCommand :: "string \<Rightarrow> string \<Rightarrow> string"
  handleCliShortcut :: "string \<Rightarrow> bool option \<Rightarrow> bool"
  createShortcut_result :: bool
  renderConfirmationPrompt :: bool
  handleI18n :: "string option \<Rightarrow> string option"
  handleRouteGeneration :: "bool \<Rightarrow> string list option"
  outcome_of :: "step \<Rightarrow> js_error option"

subsection \<open>Promises\<close>

text \<open>
  A promise is modelled by how it settles and by the calls made on the way to it: each
  call with the calls that had completed when it started. A callback given to
  \<^verbatim>\<open>then\<close> starts only once the promise it is chained to has fulfilled, so
  every call in the history of that promise has completed by then. \<open>Halted\<close> is the state
  after \<^verbatim>\<open>abort\<close> ran.
\<close>

datatype settled = Fulfilled | Rejected js_error | Halted

record promise =
  history :: "(step \<times> step list) list"
  settled :: settled

definition steps :: "promise \<Rightarrow> step list" where
  "steps p = map fst (history p)"

definition settle :: "env \<Rightarrow> step \<Rightarrow> settled" where
  "settle env s = (case outcome_of env s of None \<Rightarrow> Fulfilled | Some e \<Rightarrow> Rejected e)"

text \<open>A call made at once: nothing is waited for.\<close>

definition start :: "env \<Rightarrow> step \<Rightarrow> promise" where
  "start env s = \<lparr>history = [(s, [])], settled = settle env s\<rparr>"

text \<open>\<^verbatim>\<open>p.then(() => s())\<close>: a rejection of \<open>p\<close> passes through and \<open>s\<close> is not called.\<close>

definition then_step :: "env \<Rightarrow> promise \<Rightarrow> step \<Rightarrow> promise" where
  "then_step env p s =
    (case settled p of
       Fulfilled \<Rightarrow> \<lparr>history = history p @ [(s, steps p)], settled = settle env s\<rparr>
     | _ \<Rightarrow> p)"

text \<open>
  Modelled from the spec: \<^verbatim>\<open>createAbortHandler\<close> of \<^verbatim>\<open>./common.js\<close> is not among the
  sources. The specification calls the abort path fatal: it halts all in-flight promises.
  \<^verbatim>\<open>p.catch(abort)\<close> therefore turns a rejection into \<open>Halted\<close>, after which nothing runs.
\<close>

definition catch_abort :: "promise \<Rightarrow> promise" where
  "catch_abort p = (case settled p of Rejected e \<Rightarrow> p\<lparr>settled := Halted\<rparr> | _ \<Rightarrow> p)"

text \<open>\<^verbatim>\<open>p.then(() => s().catch(abort))\<close>\<close>

definition then_step_catch_abort :: "env \<Rightarrow> promise \<Rightarrow> step \<Rightarrow> promise" where
  "then_step_catch_abort env p s =
    (case settled p of Fulfilled \<Rightarrow> catch_abort (then_step env p s) | _ \<Rightarrow> p)"

text \<open>The first promise of a list that did not fulfil decides; all fulfilled otherwise.\<close>

fun first_unfulfilled :: "settled list \<Rightarrow> settled" where
  "first_unfulfilled [] = Fulfilled"
| "first_unfulfilled (Fulfilled # r) = first_unfulfilled r"
| "first_unfulfilled (x # r) = x"

text \<open>\<^verbatim>\<open>Promise.all(ps)\<close>: fulfilled once every promise of the list is.\<close>

definition promise_all :: "promise list \<Rightarrow> promise" where
  "promise_all ps =
    \<lparr>history = remdups (concat (map history ps)),
     settled = first_unfulfilled (map settled ps)\<rparr>"

text \<open>
  \<^verbatim>\<open>s().then(() => c()).catch(handler)\<close>, started once \<open>p\<close> has fulfilled: the promise, which
  fulfils whatever happens, and the error handed to the handler, if any.
\<close>

definition step_then_commit_caught ::
  "env \<Rightarrow> promise \<Rightarrow> step \<Rightarrow> step \<Rightarrow> promise \<times> js_error option" where
  "step_then_commit_caught env p s c =
    (let q = then_step env (then_step env p s) c
     in (q\<lparr>settled := Fulfilled\<rparr>, case settled q of Rejected e \<Rightarrow> Some e | _ \<Rightarrow> None))"

subsection \<open>The stages of the function, in the order of its statements\<close>

text \<open>
  \<^verbatim>\<open>storefrontInfo && createStorefront(...).then(async ({storefront, jobId}) => {
  if (jobId) await waitForJob(...); return storefront }).catch(abort)\<close>
\<close>

definition createStorefrontPromise :: "env \<Rightarrow> storefrontInfo option \<Rightarrow> promise option" where
  "createStorefrontPromise env storefrontInfo =
    (case storefrontInfo of
       None \<Rightarrow> None
     | Some info \<Rightarrow>
         Some (catch_abort
                (case createStorefront_jobId env of
                   Some jobId \<Rightarrow> then_step env (start env CreateStorefront) WaitForJob
                 | None \<Rightarrow> start env CreateStorefront)))"

text \<open>\<^verbatim>\<open>copyWithFilter(...).then(() => generateProjectEntries(...)).catch(abort)\<close>\<close>

definition copy_and_generate :: "env \<Rightarrow> promise" where
  "copy_and_generate env =
    catch_abort (then_step env (start env CopyTemplate) GenerateProjectEntries)"

text \<open>
  The callback that writes \<^verbatim>\<open>package.json\<close>, the linked storefront and \<^verbatim>\<open>.env\<close>, joined by
  \<^verbatim>\<open>Promise.all(promises).catch(abort)\<close>. \<^verbatim>\<open>setStorefront\<close> is chained to
  \<^verbatim>\<open>createStorefrontPromise\<close> inside the callback, so it waits for both.
\<close>

definition write_project_files ::
  "env \<Rightarrow> templateAction \<Rightarrow> storefrontInfo option \<Rightarrow> promise option \<Rightarrow> promise \<Rightarrow> promise" where
  "write_project_files env templateAction storefrontInfo csp bg =
    (case settled bg of
       Fulfilled \<Rightarrow>
         catch_abort
           (promise_all
              ([then_step env bg ReplacePackageJson] @
               (case (storefrontInfo, csp) of
                  (Some info, Some c) \<Rightarrow>
                    [then_step env bg SetUserAccount,
                     then_step env (promise_all [bg, c]) SetStorefront,
                     then_step env bg WriteEmptyEnv]
                | _ \<Rightarrow>
                    if templateAction = Mock then [then_step env bg WriteMockEnv] else [])))
     | _ \<Rightarrow> bg)"

text \<open>
  \<^verbatim>\<open>.then(() => transpileProject().catch(abort)).then(() => createInitialCommit(...))\<close>
\<close>

definition transpile_and_commit :: "env \<Rightarrow> promise \<Rightarrow> promise" where
  "transpile_and_commit env bg =
    then_step env (then_step_catch_abort env bg TranspileProject) CreateInitialCommit"

text \<open>\<^verbatim>\<open>if (cssStrategy) ... .then(() => setupCss().catch(abort)).then(() => commitAll(...))\<close>\<close>

definition setup_css :: "env \<Rightarrow> string option \<Rightarrow> promise \<Rightarrow> promise" where
  "setup_css env css bg =
    (case nonempty css of
       Some strategy \<Rightarrow> then_step env (then_step_catch_abort env bg SetupCss) CommitCss
     | None \<Rightarrow> bg)"

text \<open>
  \<^verbatim>\<open>backgroundWorkPromise.then(async () => { try { await installDeps();
  setupSummary.depsInstalled = true } catch (error) { setupSummary.depsError = error } })\<close>
\<close>

definition install_dependencies ::
  "env \<Rightarrow> promise \<Rightarrow> SetupSummary \<Rightarrow> promise \<times> SetupSummary" where
  "install_dependencies env bg setupSummary =
    (case settled bg of
       Fulfilled \<Rightarrow>
         (\<lparr>history = history bg @ [(InstallDeps, steps bg)], settled = Fulfilled\<rparr>,
          case outcome_of env InstallDeps of
            None \<Rightarrow> setupSummary\<lparr>depsInstalled := True\<rparr>
          | Some error \<Rightarrow> setupSummary\<lparr>depsError := Some error\<rparr>)
     | _ \<Rightarrow> (bg, setupSummary))"

text \<open>
  \<^verbatim>\<open>backgroundWorkPromise.then(async () => {
  setupSummary.hasCreatedShortcut = await createShortcut() })\<close>
\<close>

definition create_shortcut ::
  "env \<Rightarrow> promise \<Rightarrow> SetupSummary \<Rightarrow> promise \<times> SetupSummary" where
  "create_shortcut env bg setupSummary =
    (then_step env bg CreateShortcut,
     if settled bg = Fulfilled \<and> outcome_of env CreateShortcut = None
     then setupSummary\<lparr>hasCreatedShortcut := createShortcut_result env\<rparr>
     else setupSummary)"

text \<open>
  The callback that sets up internationalization and then the routes, each followed by its
  commit and by a \<^verbatim>\<open>catch\<close> that stores the error in the summary.
\<close>

definition scaffold :: "env \<Rightarrow> promise \<Rightarrow> SetupSummary \<Rightarrow> promise \<times> SetupSummary" where
  "scaffold env bg setupSummary =
    (case settled bg of
       Fulfilled \<Rightarrow>
         (let (p1, e1) = step_then_commit_caught env bg SetupI18n CommitI18n;
              summary1 = (case e1 of
                            Some error \<Rightarrow> setupSummary\<lparr>i18nError := Some error\<rparr>
                          | None \<Rightarrow> setupSummary);
              (p2, e2) = step_then_commit_caught env p1 SetupRoutes CommitRoutes;
              summary2 = (case e2 of
                            Some error \<Rightarrow> summary1\<lparr>routesError := Some error\<rparr>
                          | None \<Rightarrow> summary1)
          in (p2, summary2))
     | _ \<Rightarrow> (bg, setupSummary))"

text \<open>
  How a run ends: no project was chosen; \<^verbatim>\<open>abort\<close> ran; the function rejected with an
  error; or \<^verbatim>\<open>renderProjectReady\<close> was called with the project and the summary.
\<close>

datatype final =
    NoProject
  | Aborted
  | Failed js_error
  | Rendered project SetupSummary

text \<open>
  \<^verbatim>\<open>await renderTasks(tasks); await commitAll(project.directory, 'Lockfile');
  await renderProjectReady(project, setupSummary)\<close>: the tasks are awaited in their order.
  The first component lists every call started, with the calls that had completed before.
\<close>

definition finish ::
  "env \<Rightarrow> project \<Rightarrow> SetupSummary \<Rightarrow> promise list \<Rightarrow> (step \<times> step list) list \<times> final" where
  "finish env project setupSummary tasks =
    (let started = remdups (concat (map history tasks))
     in case first_unfulfilled (map settled tasks) of
          Halted \<Rightarrow> (started, Aborted)
        | Rejected e \<Rightarrow> (started, Failed e)
        | Fulfilled \<Rightarrow>
            (started @ [(CommitLockfile, map fst started)],
             case outcome_of env CommitLockfile of
               Some e \<Rightarrow> Failed e
             | None \<Rightarrow> Rendered project setupSummary))"

subsection \<open>The function\<close>

definition setupLocalStarterTemplate ::
  "env \<Rightarrow> InitOptions \<Rightarrow> (step \<times> step list) list \<times> final" where
  "setupLocalStarterTemplate env options =
    (let templateAction = (if mockShop options then Mock else renderSelectPrompt env);
         storefrontInfo = (if templateAction = Link then Some (handleStorefrontLink env) else None)
     in case handleProjectLocation env storefrontInfo of
          None \<Rightarrow> ([], NoProject)
        | Some located \<Rightarrow>
           (let project = (if templateAction = Mock
                           then located\<lparr>storefrontTitle := Some ''Mock.shop''\<rparr> else located);
                csp = createStorefrontPromise env storefrontInfo;
                bg = copy_and_generate env;
                bg = write_project_files env templateAction storefrontInfo csp bg;
                lang = handleLanguage env (directory project) (InitOptions.language options);
                bg = transpile_and_commit env bg;
                css = handleCssStrategy env (directory project) (styling options);
                bg = setup_css env css bg;
                (pm, shouldInstallDeps) =
                   handleDependencies env (directory project) (installDeps options);
                setupSummary =
                   \<lparr>language = lang, packageManager = pm, cssStrategy = css,
                    depsInstalled = False, depsError = None, hasCreatedShortcut = False,
                    i18n = None, i18nError = None, routes = None, routesError = None\<rparr>;
                (installing, setupSummary) =
                   (if shouldInstallDeps
                    then (let (p, s) = install_dependencies env bg setupSummary in ([p], s))
                    else ([], setupSummary));
                cliCommand = getCliCommand env [] pm;
                createShortcut = handleCliShortcut env cliCommand (shortcut options);
                (bg, setupSummary) =
                   (if createShortcut then create_shortcut env bg setupSummary
                    else (bg, setupSummary));
                continueWithSetup =
                   (InitOptions.i18n options \<noteq> None \<or> InitOptions.routes options \<noteq> None
                    \<or> renderConfirmationPrompt env);
                (bg, setupSummary) =
                   (if continueWithSetup
                    then (let i18nStrategy = handleI18n env (InitOptions.i18n options);
                              generated = handleRouteGeneration env True
                          in scaffold env bg
                               (setupSummary\<lparr>i18n := i18nStrategy, routes := generated\<rparr>))
                    else (bg, setupSummary))
            in finish env project setupSummary
                 ((case csp of Some c \<Rightarrow> [c] | None \<Rightarrow> []) @ [bg] @ installing)))"

section \<open>Concrete inputs\<close>

text \<open>
  Inputs at which the theorems below are evaluated: a request for \<^verbatim>\<open>/old?redirect=/new\<close>,
  the \<^verbatim>\<open>redirect\<close> of the server runtime (status 302 and a \<^verbatim>\<open>Location\<close> header), a client whose
  query throws and one whose query finds a redirect to \<^verbatim>\<open>/target\<close>.
\<close>

definition example_deps :: redirect_deps where
  "example_deps =
    \<lparr>new_URL = (\<lambda>u. (''/old'', ''?redirect=/new'')),
     redirect = (\<lambda>u. \<lparr>body = None, status = 302, headers = [(''Location'', u)]\<rparr>),
     getRedirectUrl = (\<lambda>u. Inr (Some ''/new''))\<rparr>"

definition failing_storefront :: storefront where
  "failing_storefront =
    \<lparr>query = (\<lambda>q v. Inl (JsError ''fetch failed'')),
     getShopifyDomain = Inr ''https://shop.example''\<rparr>"

definition redirecting_storefront :: storefront where
  "redirecting_storefront =
    \<lparr>query = (\<lambda>q v. Inr (Some \<lparr>urlRedirects =
        Some (UrlRedirectConnection (Some [UrlRedirectEdge (Some (UrlRedirect (Some ''/target'')))]))\<rparr>)),
     getShopifyDomain = Inr ''https://shop.example''\<rparr>"

definition example_options :: "storefront \<Rightarrow> StorefrontRedirect" where
  "example_options sf =
    \<lparr>storefront = sf, request = \<lparr>url = ''https://shop.example/old?redirect=/new''\<rparr>,
     response = None, noAdminRedirect = None\<rparr>"

text \<open>
  For the rewrite of \<^verbatim>\<open>package.json\<close>: the first lines of the template's file, a linked
  storefront and a project, and a stand-in for \<^verbatim>\<open>hyphenate\<close> that turns spaces into hyphens.
\<close>

definition example_hyphenate :: "string \<Rightarrow> string" where
  "example_hyphenate t = map (\<lambda>c. if c = CHR '' '' then CHR ''-'' else c) t"

definition example_package_json :: string where
  \<open>example_package_json =
     ''{'' @ [CHR 0x0A] @
     ''  "name": "demo-store",'' @ [CHR 0x0A] @
     ''  "private": true'' @ [CHR 0x0A] @
     ''}''\<close>

definition example_project :: project where
  "example_project = \<lparr>name = ''my-project'', directory = ''/tmp/my-project'', storefrontTitle = None\<rparr>"

definition example_storefrontInfo :: storefrontInfo where
  "example_storefrontInfo = \<lparr>title = Some ''My Shop'', session = ''token''\<rparr>"

text \<open>
  The response that the sentence on redirect lookup names, read by itself: the target found
  by the query when there is one, else the local redirect when \<^verbatim>\<open>getRedirectUrl\<close> yields one,
  else the response of the options or the 404 response.
\<close>

definition response_as_stated :: "redirect_deps \<Rightarrow> StorefrontRedirect \<Rightarrow> response" where
  "response_as_stated deps options =
    (let (pathname', search') = new_URL deps (url (request options));
         found = (case query (storefront options) REDIRECT_QUERY
                         [(''query'', ''path:'' @ pathname' @ search')] of
                    Inr (Some d) \<Rightarrow> nonempty (first_target (urlRedirects d))
                  | _ \<Rightarrow> None);
         local = (case getRedirectUrl deps (url (request options)) of
                    Inr r \<Rightarrow> nonempty r
                  | Inl e \<Rightarrow> None)
     in case found of
          Some location \<Rightarrow> \<lparr>body = None, status = 301, headers = [(''location'', location)]\<rparr>
        | None \<Rightarrow>
           (case local of
              Some redirectTo \<Rightarrow> redirect deps redirectTo
            | None \<Rightarrow> (case response options of Some r \<Rightarrow> r | None \<Rightarrow> not_found)))"

section \<open>Properties of the utilities\<close>

lemma split_on_not_Nil: "split_on sep s \<noteq> []"
  by (induction s) (auto split: list.splits)

lemma split_on_no_sep: "sep \<notin> set h \<Longrightarrow> split_on sep h = [h]"
  by (induction h) auto

lemma split_on_append:
  "split_on sep (p @ sep # r) = split_on sep p @ split_on sep r"
proof (induction p)
  case Nil
  show ?case by simp
next
  case (Cons c p)
  obtain w ws where w: "split_on sep p = w # ws"
    using split_on_not_Nil [of sep p] by (cases "split_on sep p") auto
  show ?case using Cons w by simp
qed

lemma split_on_snoc:
  "sep \<notin> set h \<Longrightarrow> split_on sep (p @ sep # h) = split_on sep p @ [h]"
  by (simp add: split_on_append split_on_no_sep)

lemma pop_snoc: "pop (xs @ [x]) = (Some x, xs)"
  by (simp add: pop_def)

lemma handle_parts:
  assumes "CHR ''/'' \<notin> set h"
  shows "pop (split_on CHR ''/'' (p @ ''/'' @ h)) = (Some h, split_on CHR ''/'' p)"
  using assms by (simp add: split_on_snoc pop_snoc)

lemma resolve_default_branch:
  assumes "CHR ''/'' \<notin> set h" and "map_of defaultPrefixes t = Some pre" and "pre \<noteq> []"
    and "t \<notin> {''FRONTPAGE'', ''ARTICLE'', ''COLLECTIONS'', ''SEARCH'', ''CATALOG''}"
  shows "resolveToFromType \<lparr>customPrefixes = [], pathname = Some (p @ ''/'' @ h), type = Some t\<rparr>
         = ''/'' @ pre @ ''/'' @ h"
proof -
  have t: "t \<noteq> []"
    using assms(2) by (auto simp: defaultPrefixes_def split: if_splits)
  show ?thesis
    using assms t handle_parts [OF assms(1), of p]
    by (simp add: resolveToFromType_def spread_def js_get_def)
qed

subsection \<open>Menu links\<close>

text \<open>
  C5. With no custom prefixes and a pathname that ends in \<open>/h\<close>, where the handle \<open>h\<close> holds
  no slash, \<^verbatim>\<open>resolveToFromType\<close> gives \<open>/products/h\<close> for \<^verbatim>\<open>PRODUCT\<close>, \<open>/\<close> for
  \<^verbatim>\<open>FRONTPAGE\<close>, \<open>/collections\<close> for \<^verbatim>\<open>COLLECTIONS\<close>, \<open>/search\<close> for \<^verbatim>\<open>SEARCH\<close>,
  \<open>/collections/all\<close> for \<^verbatim>\<open>CATALOG\<close>, the default prefix followed by the handle for
  \<^verbatim>\<open>BLOG\<close>, \<^verbatim>\<open>PAGE\<close>, \<^verbatim>\<open>COLLECTION\<close> and \<^verbatim>\<open>SHOP_POLICY\<close>, and \<open>/blogs/b/h/\<close> for
  \<^verbatim>\<open>ARTICLE\<close> when the segment before the handle is \<open>b\<close>.
\<close>

theorem resolveToFromType_known_types:
  assumes "CHR ''/'' \<notin> set h"
  shows "let args = (\<lambda>t. \<lparr>customPrefixes = [], pathname = Some (p @ ''/'' @ h), type = Some t\<rparr>) in
      resolveToFromType (args ''PRODUCT'') = ''/products/'' @ h
    \<and> resolveToFromType (args ''FRONTPAGE'') = ''/''
    \<and> resolveToFromType (args ''COLLECTIONS'') = ''/collections''
    \<and> resolveToFromType (args ''SEARCH'') = ''/search''
    \<and> resolveToFromType (args ''CATALOG'') = ''/collections/all''
    \<and> resolveToFromType (args ''BLOG'') = ''/blogs/'' @ h
    \<and> resolveToFromType (args ''PAGE'') = ''/pages/'' @ h
    \<and> resolveToFromType (args ''COLLECTION'') = ''/collections/'' @ h
    \<and> resolveToFromType (args ''SHOP_POLICY'') = ''/policies/'' @ h
    \<and> (\<forall>q b. p = q @ ''/'' @ b \<and> CHR ''/'' \<notin> set b \<longrightarrow>
           resolveToFromType (args ''ARTICLE'') = ''/blogs/'' @ b @ ''/'' @ h @ ''/'')"
proof -
  note hp = handle_parts [OF assms, of p]
  have fixed:
    "resolveToFromType \<lparr>customPrefixes = [], pathname = Some (p @ ''/'' @ h), type = Some ''FRONTPAGE''\<rparr> = ''/''"
    "resolveToFromType \<lparr>customPrefixes = [], pathname = Some (p @ ''/'' @ h), type = Some ''COLLECTIONS''\<rparr> = ''/collections''"
    "resolveToFromType \<lparr>customPrefixes = [], pathname = Some (p @ ''/'' @ h), type = Some ''SEARCH''\<rparr> = ''/search''"
    "resolveToFromType \<lparr>customPrefixes = [], pathname = Some (p @ ''/'' @ h), type = Some ''CATALOG''\<rparr> = ''/collections/all''"
    using hp by (simp_all add: resolveToFromType_def spread_def js_get_def defaultPrefixes_def)
  have article:
    "resolveToFromType \<lparr>customPrefixes = [], pathname = Some (q @ ''/'' @ b @ ''/'' @ h), type = Some ''ARTICLE''\<rparr>
       = ''/blogs/'' @ b @ ''/'' @ h @ ''/''" if "CHR ''/'' \<notin> set b" for q b
    using handle_parts [OF assms, of "q @ ''/'' @ b"] handle_parts [OF that, of q]
    by (simp add: resolveToFromType_def spread_def js_get_def defaultPrefixes_def)
  have prefixed:
    "resolveToFromType \<lparr>customPrefixes = [], pathname = Some (p @ ''/'' @ h), type = Some ''PRODUCT''\<rparr> = ''/products/'' @ h"
    "resolveToFromType \<lparr>customPrefixes = [], pathname = Some (p @ ''/'' @ h), type = Some ''BLOG''\<rparr> = ''/blogs/'' @ h"
    "resolveToFromType \<lparr>customPrefixes = [], pathname = Some (p @ ''/'' @ h), type = Some ''PAGE''\<rparr> = ''/pages/'' @ h"
    "resolveToFromType \<lparr>customPrefixes = [], pathname = Some (p @ ''/'' @ h), type = Some ''COLLECTION''\<rparr> = ''/collections/'' @ h"
    "resolveToFromType \<lparr>customPrefixes = [], pathname = Some (p @ ''/'' @ h), type = Some ''SHOP_POLICY''\<rparr> = ''/policies/'' @ h"
    using resolve_default_branch [OF assms, of _ _ p] by (simp_all add: defaultPrefixes_def)
  show ?thesis
    unfolding Let_def using fixed prefixed article by auto
qed

theorem resolveToFromType_known_types_witness:
  "CHR ''/'' \<notin> set ''shirt''
   \<and> resolveToFromType \<lparr>customPrefixes = [], pathname = Some ''/products/shirt'', type = Some ''PRODUCT''\<rparr>
       = ''/products/shirt''
   \<and> resolveToFromType \<lparr>customPrefixes = [], pathname = Some ''/blogs/news/shirt'', type = Some ''ARTICLE''\<rparr>
       = ''/blogs/news/shirt/''"
proof -
  have h: "CHR ''/'' \<notin> set ''shirt''" by simp
  have n: "''/blogs/news'' = ''/blogs'' @ ''/'' @ ''news'' \<and> CHR ''/'' \<notin> set ''news''" by simp
  have "resolveToFromType \<lparr>customPrefixes = [], pathname = Some (''/products'' @ ''/'' @ ''shirt''), type = Some ''PRODUCT''\<rparr>
          = ''/products/'' @ ''shirt''"
    using resolveToFromType_known_types [OF h, of "''/products''"] by (simp add: Let_def)
  moreover have "resolveToFromType \<lparr>customPrefixes = [], pathname = Some (''/blogs/news'' @ ''/'' @ ''shirt''), type = Some ''ARTICLE''\<rparr>
          = ''/blogs/'' @ ''news'' @ ''/'' @ ''shirt'' @ ''/''"
    using resolveToFromType_known_types [OF h, of "''/blogs/news''"] n
    unfolding Let_def by blast
  ultimately show ?thesis using h by simp
qed

subsection \<open>Order status\<close>

lemma translation_differs:
  "(k, v) \<in> set translations_tbl \<Longrightarrow> v \<noteq> k"
  by (auto simp: translations_tbl_def)

text \<open>
  C10, as the code has it. A status that is neither one of the 24 keys of the table nor the
  name of a member that every object inherits from \<^verbatim>\<open>Object.prototype\<close> has no translation:
  the result is \<^verbatim>\<open>undefined\<close>. For every status, the read does not throw, so the \<^verbatim>\<open>catch\<close>
  branch is never taken, and the result is never the status string itself.
\<close>

theorem statusMessage_unknown_status:
  "length translations_tbl = 24
   \<and> (s \<notin> set (map fst translations_tbl) \<and> s \<notin> set object_prototype_keys
        \<longrightarrow> statusMessage s = Undefined)
   \<and> (\<forall>e. optional_index (Some translations_tbl) s \<noteq> Inl e)
   \<and> statusMessage s \<noteq> Str s"
proof -
  have len: "length translations_tbl = 24"
    by (simp add: translations_tbl_def)
  have unknown: "statusMessage s = Undefined"
    if "s \<notin> set (map fst translations_tbl)" "s \<notin> set object_prototype_keys"
  proof -
    have "map_of translations_tbl s = None"
      using that(1) by (simp add: map_of_eq_None_iff)
    then show ?thesis
      using that(2) by (simp add: statusMessage_def optional_index_def js_get_def)
  qed
  have no_throw: "optional_index (Some translations_tbl) s \<noteq> Inl e" for e
    by (simp add: optional_index_def)
  have not_raw: "statusMessage s \<noteq> Str s"
  proof (cases "map_of translations_tbl s")
    case None
    then show ?thesis
      by (simp add: statusMessage_def optional_index_def js_get_def)
  next
    case (Some v)
    then have "v \<noteq> s"
      using translation_differs [of s v] by (auto dest: map_of_SomeD)
    with Some show ?thesis
      by (simp add: statusMessage_def optional_index_def js_get_def)
  qed
  show ?thesis using len unknown no_throw not_raw by blast
qed

theorem statusMessage_unknown_status_witness:
  "''open'' \<notin> set (map fst translations_tbl) \<and> ''open'' \<notin> set object_prototype_keys
   \<and> statusMessage ''open'' = Undefined"
proof -
  have h: "''open'' \<notin> set (map fst translations_tbl) \<and> ''open'' \<notin> set object_prototype_keys"
    by (simp add: translations_tbl_def object_prototype_keys_def)
  show ?thesis using h statusMessage_unknown_status [of "''open''"] by blast
qed

text \<open>
  C10 as stated fails: \<^verbatim>\<open>constructor\<close> is not a key of the table, and the read finds the
  member inherited from \<^verbatim>\<open>Object.prototype\<close>, not \<^verbatim>\<open>undefined\<close>.
\<close>

theorem statusMessage_inherited_counterexample:
  "\<not> (\<forall>s. s \<notin> set (map fst translations_tbl) \<longrightarrow> statusMessage s = Undefined)"
proof
  assume "\<forall>s. s \<notin> set (map fst translations_tbl) \<longrightarrow> statusMessage s = Undefined"
  moreover have "''constructor'' \<notin> set (map fst translations_tbl)"
    by (simp add: translations_tbl_def)
  ultimately have "statusMessage ''constructor'' = Undefined" by blast
  then show False
    by (simp add: statusMessage_def optional_index_def js_get_def translations_tbl_def
        object_prototype_keys_def)
qed

subsection \<open>Redirect lookup\<close>

text \<open>
  C1, as the code has it. For a request whose pathname is not \<^verbatim>\<open>/admin\<close>, or with
  \<^verbatim>\<open>noAdminRedirect\<close> set, \<^verbatim>\<open>storefrontRedirect\<close> returns: a 301 response whose \<^verbatim>\<open>location\<close>
  header is the target of the first edge, when the query returns one that is not empty; a
  redirect to the value of \<^verbatim>\<open>getRedirectUrl(request.url)\<close>, when the query returns without
  such a target and that value is a non-empty string; and in every other case, also when
  the query throws, the response of the options, the 404 response by default.
\<close>

theorem storefrontRedirect_result:
  assumes "new_URL deps (url (request options)) = (pn, se)"
    and "pn \<noteq> ''/admin'' \<or> noAdminRedirect options = Some True"
  shows "snd (storefrontRedirect deps options) =
     Inr (case query (storefront options) REDIRECT_QUERY [(''query'', ''path:'' @ pn @ se)] of
            Inr (Some d) \<Rightarrow>
              (case nonempty (first_target (urlRedirects d)) of
                 Some l \<Rightarrow> \<lparr>body = None, status = 301, headers = [(''location'', l)]\<rparr>
               | None \<Rightarrow>
                  (case getRedirectUrl deps (url (request options)) of
                     Inr (Some t) \<Rightarrow>
                       if t \<noteq> [] then redirect deps t
                       else (case response options of Some r \<Rightarrow> r | None \<Rightarrow> not_found)
                   | _ \<Rightarrow> (case response options of Some r \<Rightarrow> r | None \<Rightarrow> not_found)))
          | _ \<Rightarrow> (case response options of Some r \<Rightarrow> r | None \<Rightarrow> not_found))"
  using assms
  by (auto simp: storefrontRedirect_def redirect_lookup_def nonempty_def Let_def
      split: sum.splits option.splits)

theorem storefrontRedirect_result_witness:
  "new_URL example_deps (url (request (example_options redirecting_storefront)))
     = (''/old'', ''?redirect=/new'')
   \<and> ''/old'' \<noteq> ''/admin''
   \<and> snd (storefrontRedirect example_deps (example_options redirecting_storefront))
     = Inr \<lparr>body = None, status = 301, headers = [(''location'', ''/target'')]\<rparr>"
proof -
  have u: "new_URL example_deps (url (request (example_options redirecting_storefront)))
            = (''/old'', ''?redirect=/new'')"
    by (simp add: example_deps_def)
  have a: "''/old'' \<noteq> ''/admin''
           \<or> noAdminRedirect (example_options redirecting_storefront) = Some True"
    by simp
  show ?thesis
    using u storefrontRedirect_result [OF u a]
    by (simp add: example_options_def redirecting_storefront_def first_target_def nonempty_def)
qed

text \<open>
  C1 as stated fails when the query throws and \<^verbatim>\<open>getRedirectUrl\<close> would yield a value: the
  \<^verbatim>\<open>catch\<close> block is entered before \<^verbatim>\<open>getRedirectUrl\<close> is called, and the 404 response is
  returned, not the redirect.
\<close>

theorem storefrontRedirect_throw_counterexample:
  "fst (new_URL example_deps (url (request (example_options failing_storefront)))) \<noteq> ''/admin''
   \<and> snd (storefrontRedirect example_deps (example_options failing_storefront))
       = Inr \<lparr>body = Some ''Not Found'', status = 404, headers = []\<rparr>
   \<and> response_as_stated example_deps (example_options failing_storefront)
       = \<lparr>body = None, status = 302, headers = [(''Location'', ''/new'')]\<rparr>
   \<and> snd (storefrontRedirect example_deps (example_options failing_storefront))
       \<noteq> Inr (response_as_stated example_deps (example_options failing_storefront))"
  by (simp add: storefrontRedirect_def redirect_lookup_def response_as_stated_def
      example_deps_def example_options_def failing_storefront_def nonempty_def not_found_def)

text \<open>
  C2. When the query throws, on a request that reaches it (the pathname is not
  \<^verbatim>\<open>/admin\<close>, or \<^verbatim>\<open>noAdminRedirect\<close> is set), the error is handed to \<^verbatim>\<open>console.error\<close> with the
  route, and \<^verbatim>\<open>storefrontRedirect\<close> returns the response of the options, the 404 response by
  default: it returns normally and does not raise the error.
\<close>

theorem storefrontRedirect_query_throws:
  assumes "new_URL deps (url (request options)) = (pn, se)"
    and "pn \<noteq> ''/admin'' \<or> noAdminRedirect options = Some True"
    and "query (storefront options) REDIRECT_QUERY [(''query'', ''path:'' @ pn @ se)] = Inl e"
  shows "storefrontRedirect deps options =
     ([(''Failed to fetch redirects from Storefront API for route '' @ pn @ se, e)],
      Inr (case response options of
             Some r \<Rightarrow> r
           | None \<Rightarrow> \<lparr>body = Some ''Not Found'', status = 404, headers = []\<rparr>))"
  using assms
  by (auto simp: storefrontRedirect_def redirect_lookup_def not_found_def Let_def
      split: option.splits)

theorem storefrontRedirect_query_throws_witness:
  "new_URL example_deps (url (request (example_options failing_storefront)))
     = (''/old'', ''?redirect=/new'')
   \<and> ''/old'' \<noteq> ''/admin''
   \<and> query (storefront (example_options failing_storefront)) REDIRECT_QUERY
        [(''query'', ''path:'' @ ''/old'' @ ''?redirect=/new'')] = Inl (JsError ''fetch failed'')
   \<and> storefrontRedirect example_deps (example_options failing_storefront) =
       ([(''Failed to fetch redirects from Storefront API for route /old?redirect=/new'',
          JsError ''fetch failed'')],
        Inr \<lparr>body = Some ''Not Found'', status = 404, headers = []\<rparr>)"
proof -
  have u: "new_URL example_deps (url (request (example_options failing_storefront)))
            = (''/old'', ''?redirect=/new'')"
    by (simp add: example_deps_def)
  have a: "''/old'' \<noteq> ''/admin''
           \<or> noAdminRedirect (example_options failing_storefront) = Some True"
    by simp
  have q: "query (storefront (example_options failing_storefront)) REDIRECT_QUERY
        [(''query'', ''path:'' @ ''/old'' @ ''?redirect=/new'')] = Inl (JsError ''fetch failed'')"
    by (simp add: example_options_def failing_storefront_def)
  show ?thesis
    using u q storefrontRedirect_query_throws [OF u a q]
    by (simp add: example_options_def)
qed

subsection \<open>Text formatting\<close>

lemma takeWhile_run:
  "\<forall>x\<in>set w. P x \<Longrightarrow> \<forall>x\<in>set t. \<not> P x \<Longrightarrow> takeWhile P (w @ t) = w"
  by (induction w) (auto simp: takeWhile_eq_Nil_iff intro: hd_in_set)

lemma dropWhile_run:
  "\<forall>x\<in>set w. P x \<Longrightarrow> \<forall>x\<in>set t. \<not> P x \<Longrightarrow> dropWhile P (w @ t) = t"
  by (induction w) (auto simp: dropWhile_eq_self_iff intro: hd_in_set)

lemma match_at_word:
  assumes "is_whitespace c" "w \<noteq> []" "\<forall>x\<in>set w. word_unit x" "\<forall>x\<in>set t. is_whitespace x"
  shows "final_word_match c (w @ t)" "takeWhile word_unit (w @ t) = w"
proof -
  have t: "\<forall>x\<in>set t. \<not> word_unit x" using assms(4) by (simp add: word_unit_def)
  show "takeWhile word_unit (w @ t) = w" using takeWhile_run [OF assms(3) t] .
  then show "final_word_match c (w @ t)"
    using assms dropWhile_run [OF assms(3) t] by (simp add: final_word_match_def list_all_iff)
qed

lemma no_match_before:
  assumes "is_whitespace c" "w \<noteq> []" "\<forall>x\<in>set w. word_unit x"
  shows "\<not> final_word_match d (pre @ c # w @ t)"
proof -
  have c: "\<not> word_unit c" using assms(1) by (simp add: word_unit_def)
  obtain x where x: "x \<in> set w" "\<not> is_whitespace x"
    using assms(2,3) by (cases w) (auto simp: word_unit_def)
  have "set w \<subseteq> set (dropWhile word_unit (pre @ c # w @ t))"
    using c by (auto simp: dropWhile_append)
  then show ?thesis using x by (auto simp: final_word_match_def list_all_iff)
qed

lemma replace_final_word_match:
  assumes "is_whitespace c" "w \<noteq> []" "\<forall>x\<in>set w. word_unit x" "\<forall>x\<in>set t. is_whitespace x"
  shows "replace_final_word (pre @ c # w @ t) = pre @ nbsp # w"
proof (induction pre)
  case Nil
  show ?case using match_at_word [OF assms] by simp
next
  case (Cons d pre)
  show ?case using Cons no_match_before [OF assms(1-3), of d pre t] by simp
qed

lemma replace_final_word_cases:
  "replace_final_word s = s \<or>
   (\<exists>pre c w t. s = pre @ c # w @ t \<and> is_whitespace c \<and> w \<noteq> [] \<and> (\<forall>x\<in>set w. word_unit x)
       \<and> (\<forall>x\<in>set t. is_whitespace x))"
proof (induction s)
  case Nil
  show ?case by simp
next
  case (Cons c r)
  show ?case
  proof (cases "final_word_match c r")
    case True
    have "c # r = [] @ c # takeWhile word_unit r @ dropWhile word_unit r" by simp
    moreover have "\<forall>x\<in>set (takeWhile word_unit r). word_unit x"
      by (auto dest: set_takeWhileD)
    ultimately show ?thesis
      using True unfolding final_word_match_def list_all_iff by blast
  next
    case False
    from Cons show ?thesis
    proof
      assume "replace_final_word r = r"
      then show ?thesis using False by simp
    next
      assume "\<exists>pre c w t. r = pre @ c # w @ t \<and> is_whitespace c \<and> w \<noteq> [] \<and> (\<forall>x\<in>set w. word_unit x)
       \<and> (\<forall>x\<in>set t. is_whitespace x)"
      then obtain pre d w t where "r = pre @ d # w @ t" "is_whitespace d" "w \<noteq> []" "\<forall>x\<in>set w. word_unit x"
         "\<forall>x\<in>set t. is_whitespace x" by blast
      then have "c # r = (c # pre) @ d # w @ t" by simp
      then show ?thesis using \<open>is_whitespace d\<close> \<open>w \<noteq> []\<close> \<open>\<forall>x\<in>set w. word_unit x\<close> \<open>\<forall>x\<in>set t. is_whitespace x\<close> by blast
    qed
  qed
qed

text \<open>
  C8, as the code has it. Let \<open>T\<close> be the typographically processed string of a non-empty
  input string. When \<open>T\<close> ends with a white-space unit, a non-empty final word that holds
  neither white space nor \<^verbatim>\<open><\<close>, and then white space only, \<^verbatim>\<open>formatText\<close> returns \<open>T\<close> with
  that one white-space unit replaced by U+00A0 and the trailing white space removed. When
  \<open>T\<close> has no such ending, \<open>T\<close> is returned as it is. A falsy input gives \<^verbatim>\<open>undefined\<close>; any
  other input that is not a string is returned unchanged.
\<close>

theorem formatText_result:
  "(falsy input \<longrightarrow> formatText tb input = NUndefined)
   \<and> (\<not> falsy input \<and> (\<forall>x. input \<noteq> NString x) \<longrightarrow> formatText tb input = input)
   \<and> (s \<noteq> [] \<and> tb s = pre @ c # w @ t \<and> is_whitespace c \<and> w \<noteq> []
        \<and> (\<forall>x\<in>set w. word_unit x) \<and> (\<forall>x\<in>set t. is_whitespace x)
      \<longrightarrow> formatText tb (NString s) = NString (pre @ nbsp # w))
   \<and> (s \<noteq> [] \<and> \<not> (\<exists>pre c w t. tb s = pre @ c # w @ t \<and> is_whitespace c \<and> w \<noteq> []
        \<and> (\<forall>x\<in>set w. word_unit x) \<and> (\<forall>x\<in>set t. is_whitespace x))
      \<longrightarrow> formatText tb (NString s) = NString (tb s))"
proof -
  have a: "formatText tb input = NUndefined" if "falsy input"
    using that by (simp add: formatText_def)
  have b: "formatText tb input = input" if "\<not> falsy input" "\<forall>x. input \<noteq> NString x"
    using that by (cases input) (simp_all add: formatText_def)
  have c: "formatText tb (NString s) = NString (pre @ nbsp # w)"
    if "s \<noteq> []" "tb s = pre @ c # w @ t" "is_whitespace c" "w \<noteq> []"
       "\<forall>x\<in>set w. word_unit x" "\<forall>x\<in>set t. is_whitespace x"
    using that replace_final_word_match [of c w t pre] by (simp add: formatText_def)
  have d: "formatText tb (NString s) = NString (tb s)"
    if "s \<noteq> []" "\<not> (\<exists>pre c w t. tb s = pre @ c # w @ t \<and> is_whitespace c \<and> w \<noteq> []
        \<and> (\<forall>x\<in>set w. word_unit x) \<and> (\<forall>x\<in>set t. is_whitespace x))"
  proof -
    have "replace_final_word (tb s) = tb s"
      using that(2) replace_final_word_cases [of "tb s"] by blast
    then show ?thesis using that(1) by (simp add: formatText_def)
  qed
  show ?thesis using a b c d by blast
qed

lemma whitespace_examples:
  "is_whitespace 0x20" "\<not> is_whitespace 0x61" "\<not> is_whitespace 0x62"
  "\<not> is_whitespace 0x3C" "\<not> is_whitespace 0x3E"
  by (simp_all add: is_whitespace_def)

theorem formatText_result_witness:
  "falsy NNull \<and> formatText (\<lambda>x. x) NNull = NUndefined
   \<and> \<not> falsy (NObject 0) \<and> formatText (\<lambda>x. x) (NObject 0) = NObject 0
   \<and> [0x61, 0x20, 0x62] = [0x61] @ 0x20 # [0x62] @ ([] :: utf16)
   \<and> is_whitespace 0x20 \<and> word_unit 0x62
   \<and> formatText (\<lambda>x. x) (NString [0x61, 0x20, 0x62]) = NString [0x61, 0xA0, 0x62]
   \<and> formatText (\<lambda>x. x) (NString [0x61, 0x62]) = NString [0x61, 0x62]"
proof -
  have f: "falsy NNull" by simp
  have o: "\<not> falsy (NObject 0) \<and> (\<forall>x. NObject 0 \<noteq> NString x)" by simp
  have m: "[0x61, 0x20, 0x62] \<noteq> ([] :: utf16)
       \<and> (\<lambda>x. x) [0x61, 0x20, 0x62] = [0x61] @ 0x20 # [0x62] @ ([] :: utf16)
       \<and> is_whitespace 0x20 \<and> [0x62] \<noteq> ([] :: utf16)
       \<and> (\<forall>x\<in>set [0x62]. word_unit x) \<and> (\<forall>x\<in>set ([] :: utf16). is_whitespace x)"
    by (simp add: whitespace_examples word_unit_def)
  have n: "[0x61, 0x62] \<noteq> ([] :: utf16)
       \<and> \<not> (\<exists>pre c w t. (\<lambda>x. x) [0x61, 0x62] = pre @ c # w @ t \<and> is_whitespace c \<and> w \<noteq> []
        \<and> (\<forall>x\<in>set w. word_unit x) \<and> (\<forall>x\<in>set t. is_whitespace x))"
  proof -
    have False if "[0x61, 0x62] = pre @ c # w @ t" "is_whitespace c" for pre c w and t :: utf16
    proof -
      have "c \<in> set (pre @ c # w @ t)" by simp
      then have "c \<in> set [0x61, 0x62 :: 16 word]" using that(1) by simp
      then show False using that(2) whitespace_examples by auto
    qed
    then show ?thesis by blast
  qed
  have 1: "formatText (\<lambda>x. x) NNull = NUndefined"
    using f formatText_result [of NNull "\<lambda>x. x"] by blast
  have 2: "formatText (\<lambda>x. x) (NObject 0) = NObject 0"
    using o formatText_result [of "NObject 0" "\<lambda>x. x"] by blast
  have 3: "formatText (\<lambda>x. x) (NString [0x61, 0x20, 0x62]) = NString ([0x61] @ nbsp # [0x62])"
    using m formatText_result [of _ "\<lambda>x. x" "[0x61, 0x20, 0x62]" "[0x61]" "0x20" "[0x62]" "[]"]
    by blast
  have 4: "formatText (\<lambda>x. x) (NString [0x61, 0x62]) = NString ((\<lambda>x. x) [0x61, 0x62])"
    using n formatText_result [of _ "\<lambda>x. x" "[0x61, 0x62]"] by blast
  show ?thesis
    using f o m 1 2 3 4 by (simp add: nbsp_def)
qed

text \<open>
  C8 as stated fails on a final word that holds \<^verbatim>\<open><\<close>: for the processed string
  \<^verbatim>\<open>a <b>\<close> the space before the final word is kept. (It fails on trailing white space
  as well, which the function removes.)
\<close>

theorem formatText_final_word_counterexample:
  "\<not> (\<forall>tb s. s \<noteq> [] \<longrightarrow> formatText tb (NString s) = NString (nbsp_before_final_word (tb s)))"
proof
  assume "\<forall>tb s. s \<noteq> [] \<longrightarrow> formatText tb (NString s) = NString (nbsp_before_final_word (tb s))"
  then have "formatText (\<lambda>x. x) (NString [0x61, 0x20, 0x3C, 0x62, 0x3E])
         = NString (nbsp_before_final_word ((\<lambda>x. x) [0x61, 0x20, 0x3C, 0x62, 0x3E]))"
    by blast
  moreover have "formatText (\<lambda>x. x) (NString [0x61, 0x20, 0x3C, 0x62, 0x3E])
         = NString [0x61, 0x20, 0x3C, 0x62, 0x3E]"
    by (simp add: formatText_def final_word_match_def word_unit_def whitespace_examples)
  moreover have "nbsp_before_final_word [0x61, 0x20, 0x3C, 0x62, 0x3E] = [0x61, 0xA0, 0x3C, 0x62, 0x3E]"
    by (simp add: nbsp_before_final_word_def whitespace_examples nbsp_def)
  ultimately show False by simp
qed

subsection \<open>The rewrite of \<^verbatim>\<open>package.json\<close>\<close>

lemma get_substitution_plain:
  "CHR ''$'' \<notin> set rep \<Longrightarrow> get_substitution m b a rep = rep"
  by (induction m b a rep rule: get_substitution.induct) auto

lemma match_name_fieldD:
  assumes "match_name_field x = Some (m, post)"
  shows "\<exists>old. m = name_key @ old @ [dquote] \<and> x = m @ post \<and> old \<noteq> [] \<and> dquote \<notin> set old"
proof -
  let ?r = "drop (length name_key) x"
  let ?v = "takeWhile (\<lambda>c. c \<noteq> dquote) ?r"
  let ?rest = "dropWhile (\<lambda>c. c \<noteq> dquote) ?r"
  from assms have k: "take (length name_key) x = name_key" and v: "?v \<noteq> []" and r: "?rest \<noteq> []"
    and m: "m = name_key @ ?v @ [dquote]" and p: "post = tl ?rest"
    by (auto simp: match_name_field_def Let_def split: if_splits)
  have "hd ?rest = dquote" using r hd_dropWhile [of "\<lambda>c. c \<noteq> dquote" ?r] by auto
  then have "?rest = dquote # post" using r p by (cases ?rest) auto
  then have "?r = ?v @ dquote # post" using takeWhile_dropWhile_id [of "\<lambda>c. c \<noteq> dquote" ?r] by simp
  then have "x = name_key @ ?v @ dquote # post"
    using k append_take_drop_id [of "length name_key" x] by simp
  moreover have "dquote \<notin> set ?v" by (auto dest: set_takeWhileD)
  ultimately show ?thesis using m v by auto
qed

lemma match_name_field_at:
  assumes "old \<noteq> []" "dquote \<notin> set old"
  shows "match_name_field (name_key @ old @ dquote # post) = Some (name_key @ old @ [dquote], post)"
proof -
  have "takeWhile (\<lambda>c. c \<noteq> dquote) (old @ dquote # post) = old"
    using assms(2) by (auto simp: takeWhile_tail takeWhile_eq_all_conv)
  moreover have "dropWhile (\<lambda>c. c \<noteq> dquote) (old @ dquote # post) = dquote # post"
    using assms(2) by (auto simp: dropWhile_append3 dropWhile_eq_Nil_conv)
  ultimately show ?thesis using assms(1) by (simp add: match_name_field_def Let_def)
qed

lemma replace_from_cases:
  assumes "CHR ''$'' \<notin> set rep"
  shows "(replace_from rep preceding s = s \<and> (\<forall>i\<le>length s. match_name_field (drop i s) = None))
       \<or> (\<exists>pre m post. s = pre @ m @ post \<and> match_name_field (m @ post) = Some (m, post)
             \<and> (\<forall>i<length pre. match_name_field (drop i s) = None)
             \<and> replace_from rep preceding s = pre @ rep @ post)"
proof (induction s arbitrary: preceding)
  case Nil
  show ?case by (simp add: match_name_field_def name_key_def)
next
  case (Cons c s)
  show ?case
  proof (cases "match_name_field (c # s)")
    case (Some mp)
    obtain m post where mp: "mp = (m, post)" by (cases mp)
    from match_name_fieldD [of "c # s" m post] Some mp have x: "c # s = m @ post" by auto
    have "replace_from rep preceding (c # s) = rep @ post"
      using Some mp assms by (simp add: get_substitution_plain)
    then have "c # s = [] @ m @ post \<and> match_name_field (m @ post) = Some (m, post)
        \<and> (\<forall>i<length ([]::string). match_name_field (drop i (c # s)) = None)
        \<and> replace_from rep preceding (c # s) = [] @ rep @ post"
      using x Some mp by simp
    then show ?thesis by blast
  next
    case None
    then have step: "replace_from rep preceding (c # s) = c # replace_from rep (preceding @ [c]) s" by simp
    from Cons [of "preceding @ [c]"] show ?thesis
    proof
      assume a: "replace_from rep (preceding @ [c]) s = s \<and> (\<forall>i\<le>length s. match_name_field (drop i s) = None)"
      have "match_name_field (drop i (c # s)) = None" if "i \<le> length (c # s)" for i
        using that a None by (cases i) auto
      then show ?thesis using a step by simp
    next
      assume "\<exists>pre m post. s = pre @ m @ post \<and> match_name_field (m @ post) = Some (m, post)
             \<and> (\<forall>i<length pre. match_name_field (drop i s) = None)
             \<and> replace_from rep (preceding @ [c]) s = pre @ rep @ post"
      then obtain pre m post where b: "s = pre @ m @ post" "match_name_field (m @ post) = Some (m, post)"
         "\<forall>i<length pre. match_name_field (drop i s) = None"
         "replace_from rep (preceding @ [c]) s = pre @ rep @ post" by blast
      have "match_name_field (drop i (c # s)) = None" if "i < length (c # pre)" for i
        using that b(3) None by (cases i) auto
      then have "c # s = (c # pre) @ m @ post \<and> match_name_field (m @ post) = Some (m, post)
             \<and> (\<forall>i<length (c # pre). match_name_field (drop i (c # s)) = None)
             \<and> replace_from rep preceding (c # s) = (c # pre) @ rep @ post"
        using b step by simp
      then show ?thesis by blast
    qed
  qed
qed

text \<open>
  C7. The callback that rewrites \<^verbatim>\<open>package.json\<close> changes the value of the first
  \<^verbatim>\<open>"name": "..."\<close> field of the content to the hyphenated storefront title, or to the
  hyphenated project name when no storefront is linked, and leaves everything before and
  after that value as it was; a content without such a field is returned unchanged.
  \<^verbatim>\<open>hyphenate\<close> yields no dollar sign (it yields letters, digits and hyphens), so the
  replacement text is taken literally.
\<close>

theorem package_json_name_rewrite:
  assumes "si = None \<and> nm = name pr \<or> (\<exists>info. si = Some info \<and> title info = Some nm)"
    and "CHR ''$'' \<notin> set (hyphenate nm)"
  shows "(package_json_replacer hyphenate si pr content = content
          \<and> (\<forall>i\<le>length content. match_name_field (drop i content) = None))
       \<or> (\<exists>pre old post.
             content = pre @ name_key @ old @ dquote # post \<and> old \<noteq> [] \<and> dquote \<notin> set old
           \<and> (\<forall>i<length pre. match_name_field (drop i content) = None)
           \<and> package_json_replacer hyphenate si pr content
               = pre @ name_key @ hyphenate nm @ dquote # post)"
proof -
  let ?rep = "name_key @ hyphenate nm @ [dquote]"
  have r: "package_json_replacer hyphenate si pr content = replace_from ?rep [] content"
    using assms(1) by (auto simp: package_json_replacer_def replace_name_def)
  have d: "CHR ''$'' \<notin> set ?rep"
    using assms(2) by (simp add: name_key_def dquote_def)
  from replace_from_cases [OF d, of "[]" content] show ?thesis
  proof
    assume "replace_from ?rep [] content = content
        \<and> (\<forall>i\<le>length content. match_name_field (drop i content) = None)"
    then show ?thesis using r by simp
  next
    assume "\<exists>pre m post. content = pre @ m @ post \<and> match_name_field (m @ post) = Some (m, post)
             \<and> (\<forall>i<length pre. match_name_field (drop i content) = None)
             \<and> replace_from ?rep [] content = pre @ ?rep @ post"
    then obtain pre m post where b: "content = pre @ m @ post"
        "match_name_field (m @ post) = Some (m, post)"
        "\<forall>i<length pre. match_name_field (drop i content) = None"
        "replace_from ?rep [] content = pre @ ?rep @ post" by blast
    from match_name_fieldD [OF b(2)] obtain old where
        o: "m = name_key @ old @ [dquote]" "old \<noteq> []" "dquote \<notin> set old" by blast
    have "content = pre @ name_key @ old @ dquote # post \<and> old \<noteq> [] \<and> dquote \<notin> set old
           \<and> (\<forall>i<length pre. match_name_field (drop i content) = None)
           \<and> package_json_replacer hyphenate si pr content
               = pre @ name_key @ hyphenate nm @ dquote # post"
      using b o r by simp
    then show ?thesis by blast
  qed
qed

theorem package_json_name_rewrite_witness:
  \<open>title example_storefrontInfo = Some ''My Shop''
   \<and> CHR ''$'' \<notin> set (example_hyphenate ''My Shop'')
   \<and> package_json_replacer example_hyphenate (Some example_storefrontInfo) example_project
        example_package_json
     = ''{'' @ [CHR 0x0A] @
       ''  "name": "My-Shop",'' @ [CHR 0x0A] @
       ''  "private": true'' @ [CHR 0x0A] @
       ''}''\<close>
proof -
  have h: "Some example_storefrontInfo = None \<and> ''My Shop'' = name example_project
       \<or> (\<exists>info. Some example_storefrontInfo = Some info \<and> title info = Some ''My Shop'')"
    by (simp add: example_storefrontInfo_def)
  have d: "CHR ''$'' \<notin> set (example_hyphenate ''My Shop'')"
    by (simp add: example_hyphenate_def)
  have e: \<open>package_json_replacer example_hyphenate (Some example_storefrontInfo) example_project
        example_package_json
     = ''{'' @ [CHR 0x0A] @
       ''  "name": "My-Shop",'' @ [CHR 0x0A] @
       ''  "private": true'' @ [CHR 0x0A] @
       ''}''\<close>
    by (simp add: package_json_replacer_def replace_name_def match_name_field_def name_key_def
        dquote_def example_package_json_def example_storefrontInfo_def example_hyphenate_def)
  show ?thesis
    using h d e
      package_json_name_rewrite [where si = "Some example_storefrontInfo" and nm = "''My Shop''"
        and pr = example_project and hyphenate = example_hyphenate
        and content = example_package_json]
    by (simp add: example_storefrontInfo_def)
qed


end
